theory Spec2Isabelle
  imports Main "HOL-Library.Sublist" "HOL-Library.Char_ord"
begin

section \<open>The registry constants of the TypeScript client SDK\<close>

text \<open>
  The module \<^verbatim>\<open>client-sdk/ts-web/core/src/registry.ts\<close> consists of exported
  \<^verbatim>\<open>const\<close> bindings only. Each binding becomes a HOL constant of the same name with
  the same right-hand side: a string literal is a \<^typ>\<open>string\<close> (all literals of the
  module are ASCII, so one character is one byte), a number literal is an \<^typ>\<open>int\<close>
  (every number of the module is a small non-negative integer), and a binding whose
  right-hand side is another binding refers to that binding's constant.
\<close>

subsection \<open>Signature contexts\<close>

definition REGISTER_ENTITY_SIGNATURE_CONTEXT :: string where
  "REGISTER_ENTITY_SIGNATURE_CONTEXT = ''oasis-core/registry: register entity''"

definition REGISTER_GENESIS_ENTITY_SIGNATURE_CONTEXT :: string where
  "REGISTER_GENESIS_ENTITY_SIGNATURE_CONTEXT = REGISTER_ENTITY_SIGNATURE_CONTEXT"

definition REGISTER_NODE_SIGNATURE_CONTEXT :: string where
  "REGISTER_NODE_SIGNATURE_CONTEXT = ''oasis-core/registry: register node''"

definition REGISTER_GENESIS_NODE_SIGNATURE_CONTEXT :: string where
  "REGISTER_GENESIS_NODE_SIGNATURE_CONTEXT = REGISTER_NODE_SIGNATURE_CONTEXT"

subsection \<open>Method names\<close>

definition METHOD_REGISTER_ENTITY :: string where
  "METHOD_REGISTER_ENTITY = ''registry.RegisterEntity''"

definition METHOD_DEREGISTER_ENTITY :: string where
  "METHOD_DEREGISTER_ENTITY = ''registry.DeregisterEntity''"

definition METHOD_REGISTER_NODE :: string where
  "METHOD_REGISTER_NODE = ''registry.RegisterNode''"

definition METHOD_UNFREEZE_NODE :: string where
  "METHOD_UNFREEZE_NODE = ''registry.UnfreezeNode''"

definition METHOD_REGISTER_RUNTIME :: string where
  "METHOD_REGISTER_RUNTIME = ''registry.RegisterRuntime''"

subsection \<open>Gas operations\<close>

definition GAS_OP_REGISTER_ENTITY :: string where
  "GAS_OP_REGISTER_ENTITY = ''register_entity''"

definition GAS_OP_DEREGISTER_ENTITY :: string where
  "GAS_OP_DEREGISTER_ENTITY = ''deregister_entity''"

definition GAS_OP_REGISTER_NODE :: string where
  "GAS_OP_REGISTER_NODE = ''register_node''"

definition GAS_OP_UNFREEZE_NODE :: string where
  "GAS_OP_UNFREEZE_NODE = ''unfreeze_node''"

definition GAS_OP_REGISTER_RUNTIME :: string where
  "GAS_OP_REGISTER_RUNTIME = ''register_runtime''"

definition GAS_OP_RUNTIME_EPOCH_MAINTENANCE :: string where
  "GAS_OP_RUNTIME_EPOCH_MAINTENANCE = ''runtime_epoch_maintenance''"

definition GAS_OP_UPDATEKEY_MANAGER :: string where
  "GAS_OP_UPDATEKEY_MANAGER = ''update_keymanager''"

subsection \<open>Runtime kinds and governance models\<close>

definition KIND_INVALID :: int where
  "KIND_INVALID = 0"

definition KIND_COMPUTE :: int where
  "KIND_COMPUTE = 1"

definition KIND_KEY_MANAGER :: int where
  "KIND_KEY_MANAGER = 2"

definition GOVERNANCE_INVALID :: int where
  "GOVERNANCE_INVALID = 0"

definition GOVERNANCE_ENTITY :: int where
  "GOVERNANCE_ENTITY = 1"

definition GOVERNANCE_RUNTIME :: int where
  "GOVERNANCE_RUNTIME = 2"

definition GOVERNANCE_CONSENSUS :: int where
  "GOVERNANCE_CONSENSUS = 3"

definition GOVERNANCE_MAX :: int where
  "GOVERNANCE_MAX = GOVERNANCE_CONSENSUS"

subsection \<open>Descriptor version and module name\<close>

definition LATEST_RUNTIME_DESCRIPTOR_VERSION :: int where
  "LATEST_RUNTIME_DESCRIPTOR_VERSION = 2"

definition MODULE_NAME :: string where
  "MODULE_NAME = ''registry''"

subsection \<open>Error codes\<close>

definition CODE_INVALID_ARGUMENT :: int where
  "CODE_INVALID_ARGUMENT = 1"

definition CODE_INVALID_SIGNATURE :: int where
  "CODE_INVALID_SIGNATURE = 2"

definition CODE_BAD_ENTITY_FOR_NODE :: int where
  "CODE_BAD_ENTITY_FOR_NODE = 3"

definition CODE_BAD_ENTITY_FOR_RUNTIME :: int where
  "CODE_BAD_ENTITY_FOR_RUNTIME = 4"

definition CODE_NO_ENCLAVE_FOR_RUNTIME :: int where
  "CODE_NO_ENCLAVE_FOR_RUNTIME = 5"

definition CODE_BAD_ENCLAVE_IDENTITY :: int where
  "CODE_BAD_ENCLAVE_IDENTITY = 6"

definition CODE_BAD_CAPABILITIES_TEE_HARDWARE :: int where
  "CODE_BAD_CAPABILITIES_TEE_HARDWARE = 7"

definition CODE_TEE_HARDWARE_MISMATCH :: int where
  "CODE_TEE_HARDWARE_MISMATCH = 8"

definition CODE_NO_SUCH_ENTITY :: int where
  "CODE_NO_SUCH_ENTITY = 9"

definition CODE_NO_SUCH_NODE :: int where
  "CODE_NO_SUCH_NODE = 10"

definition CODE_NO_SUCH_RUNTIME :: int where
  "CODE_NO_SUCH_RUNTIME = 11"

definition CODE_INCORRECT_TX_SIGNER :: int where
  "CODE_INCORRECT_TX_SIGNER = 12"

definition CODE_NODE_EXPIRED :: int where
  "CODE_NODE_EXPIRED = 13"

definition CODE_NODE_CANNOT_BE_UNFROZEN :: int where
  "CODE_NODE_CANNOT_BE_UNFROZEN = 14"

definition CODE_ENTITY_HAS_NODES :: int where
  "CODE_ENTITY_HAS_NODES = 15"

definition CODE_FORBIDDEN :: int where
  "CODE_FORBIDDEN = 16"

definition CODE_NODE_UPDATE_NOT_ALLOWED :: int where
  "CODE_NODE_UPDATE_NOT_ALLOWED = 17"

definition CODE_RUNTIME_UPDATE_NOT_ALLOWED :: int where
  "CODE_RUNTIME_UPDATE_NOT_ALLOWED = 18"

definition CODE_ENTITY_HAS_RUNTIMES :: int where
  "CODE_ENTITY_HAS_RUNTIMES = 19"

text \<open>
  The doc comment above each \<^verbatim>\<open>CODE_*\<close> binding names the failure condition the code
  stands for (\<^verbatim>\<open>ErrInvalidArgument is the error returned on malformed argument(s)\<close>,
  and so on). The conditions are the constructors of \<open>registry_error\<close>, in the order of
  the module, and \<open>error_code\<close> is the pairing the comments document.
\<close>

datatype registry_error =
    ErrInvalidArgument
  | ErrInvalidSignature
  | ErrBadEntityForNode
  | ErrBadEntityForRuntime
  | ErrNoEnclaveForRuntime
  | ErrBadEnclaveIdentity
  | ErrBadCapabilitiesTEEHardware
  | ErrTEEHardwareMismatch
  | ErrNoSuchEntity
  | ErrNoSuchNode
  | ErrNoSuchRuntime
  | ErrIncorrectTxSigner
  | ErrNodeExpired
  | ErrNodeCannotBeUnfrozen
  | ErrEntityHasNodes
  | ErrForbidden
  | ErrNodeUpdateNotAllowed
  | ErrRuntimeUpdateNotAllowed
  | ErrEntityHasRuntimes

fun error_code :: "registry_error \<Rightarrow> int" where
  "error_code ErrInvalidArgument = CODE_INVALID_ARGUMENT"
| "error_code ErrInvalidSignature = CODE_INVALID_SIGNATURE"
| "error_code ErrBadEntityForNode = CODE_BAD_ENTITY_FOR_NODE"
| "error_code ErrBadEntityForRuntime = CODE_BAD_ENTITY_FOR_RUNTIME"
| "error_code ErrNoEnclaveForRuntime = CODE_NO_ENCLAVE_FOR_RUNTIME"
| "error_code ErrBadEnclaveIdentity = CODE_BAD_ENCLAVE_IDENTITY"
| "error_code ErrBadCapabilitiesTEEHardware = CODE_BAD_CAPABILITIES_TEE_HARDWARE"
| "error_code ErrTEEHardwareMismatch = CODE_TEE_HARDWARE_MISMATCH"
| "error_code ErrNoSuchEntity = CODE_NO_SUCH_ENTITY"
| "error_code ErrNoSuchNode = CODE_NO_SUCH_NODE"
| "error_code ErrNoSuchRuntime = CODE_NO_SUCH_RUNTIME"
| "error_code ErrIncorrectTxSigner = CODE_INCORRECT_TX_SIGNER"
| "error_code ErrNodeExpired = CODE_NODE_EXPIRED"
| "error_code ErrNodeCannotBeUnfrozen = CODE_NODE_CANNOT_BE_UNFROZEN"
| "error_code ErrEntityHasNodes = CODE_ENTITY_HAS_NODES"
| "error_code ErrForbidden = CODE_FORBIDDEN"
| "error_code ErrNodeUpdateNotAllowed = CODE_NODE_UPDATE_NOT_ALLOWED"
| "error_code ErrRuntimeUpdateNotAllowed = CODE_RUNTIME_UPDATE_NOT_ALLOWED"
| "error_code ErrEntityHasRuntimes = CODE_ENTITY_HAS_RUNTIMES"

section \<open>The end-to-end test configuration\<close>

text \<open>
  \<^verbatim>\<open>client-sdk/ts-web/rt/cypress.config.ts\<close> exports one object literal, passed through
  the test runner's \<^verbatim>\<open>defineConfig\<close>. The fields the literal sets are the fields of the
  records below. The runner types \<^verbatim>\<open>supportFile\<close> as a path or the literal
  \<^verbatim>\<open>false\<close>; the hook \<^verbatim>\<open>setupNodeEvents\<close> is a function, whose type is left open
  as \<open>'hook\<close>.
\<close>

datatype support_file = SupportFileFalse | SupportFilePath string

record 'hook e2e_options =
  supportFile :: support_file
  setupNodeEvents :: 'hook

record 'hook cypress_config =
  video :: bool
  e2e :: "'hook e2e_options"

text \<open>
  \<^verbatim>\<open>defineConfig\<close> belongs to the test runner, not to this repository. It exists for
  the type checker and hands its argument back unchanged, which is how it is taken here.
\<close>

definition defineConfig :: "'hook cypress_config \<Rightarrow> 'hook cypress_config" where
  "defineConfig config = config"

text \<open>
  The imported helper module \<^verbatim>\<open>./../core/cypress/outputConsoleLogs\<close> is not part of
  the two files; the one member the configuration reads from it,
  \<^verbatim>\<open>outputConsoleLogs.setupNodeEvents\<close>, is the parameter of the exported value.
\<close>

definition default_export :: "'hook \<Rightarrow> 'hook cypress_config" where
  "default_export outputConsoleLogs_setupNodeEvents =
     defineConfig
       \<lparr> video = False,
         e2e = \<lparr> supportFile = SupportFileFalse,
                 setupNodeEvents = outputConsoleLogs_setupNodeEvents \<rparr> \<rparr>"

section \<open>Facts shared by the proofs below\<close>

lemmas signature_context_defs =
  REGISTER_ENTITY_SIGNATURE_CONTEXT_def REGISTER_GENESIS_ENTITY_SIGNATURE_CONTEXT_def
  REGISTER_NODE_SIGNATURE_CONTEXT_def REGISTER_GENESIS_NODE_SIGNATURE_CONTEXT_def

lemmas method_defs =
  METHOD_REGISTER_ENTITY_def METHOD_DEREGISTER_ENTITY_def METHOD_REGISTER_NODE_def
  METHOD_UNFREEZE_NODE_def METHOD_REGISTER_RUNTIME_def

lemmas gas_op_defs =
  GAS_OP_REGISTER_ENTITY_def GAS_OP_DEREGISTER_ENTITY_def GAS_OP_REGISTER_NODE_def
  GAS_OP_UNFREEZE_NODE_def GAS_OP_REGISTER_RUNTIME_def GAS_OP_RUNTIME_EPOCH_MAINTENANCE_def
  GAS_OP_UPDATEKEY_MANAGER_def

lemmas kind_defs = KIND_INVALID_def KIND_COMPUTE_def KIND_KEY_MANAGER_def

lemmas governance_defs =
  GOVERNANCE_INVALID_def GOVERNANCE_ENTITY_def GOVERNANCE_RUNTIME_def
  GOVERNANCE_CONSENSUS_def GOVERNANCE_MAX_def

lemmas code_defs =
  CODE_INVALID_ARGUMENT_def CODE_INVALID_SIGNATURE_def CODE_BAD_ENTITY_FOR_NODE_def
  CODE_BAD_ENTITY_FOR_RUNTIME_def CODE_NO_ENCLAVE_FOR_RUNTIME_def
  CODE_BAD_ENCLAVE_IDENTITY_def CODE_BAD_CAPABILITIES_TEE_HARDWARE_def
  CODE_TEE_HARDWARE_MISMATCH_def CODE_NO_SUCH_ENTITY_def CODE_NO_SUCH_NODE_def
  CODE_NO_SUCH_RUNTIME_def CODE_INCORRECT_TX_SIGNER_def CODE_NODE_EXPIRED_def
  CODE_NODE_CANNOT_BE_UNFROZEN_def CODE_ENTITY_HAS_NODES_def CODE_FORBIDDEN_def
  CODE_NODE_UPDATE_NOT_ALLOWED_def CODE_RUNTIME_UPDATE_NOT_ALLOWED_def
  CODE_ENTITY_HAS_RUNTIMES_def

section \<open>Signature contexts\<close>

text \<open>
  C1. Each genesis signature context is an alias of its non-genesis counterpart: the two
  strings are equal, so whatever is computed from a context (signing or verifying under
  it, here any function \<open>f\<close>) gives the same result for the genesis context and for the
  non-genesis one.
\<close>

theorem genesis_contexts_are_aliases:
  "REGISTER_GENESIS_ENTITY_SIGNATURE_CONTEXT = REGISTER_ENTITY_SIGNATURE_CONTEXT
   \<and> REGISTER_GENESIS_NODE_SIGNATURE_CONTEXT = REGISTER_NODE_SIGNATURE_CONTEXT
   \<and> f REGISTER_GENESIS_ENTITY_SIGNATURE_CONTEXT = f REGISTER_ENTITY_SIGNATURE_CONTEXT
   \<and> f REGISTER_GENESIS_NODE_SIGNATURE_CONTEXT = f REGISTER_NODE_SIGNATURE_CONTEXT"
  by (simp add: REGISTER_GENESIS_ENTITY_SIGNATURE_CONTEXT_def
      REGISTER_GENESIS_NODE_SIGNATURE_CONTEXT_def)

text \<open>
  C3. The two base signature contexts are exactly the wire literals
  \<^verbatim>\<open>oasis-core/registry: register entity\<close> and \<^verbatim>\<open>oasis-core/registry: register node\<close>,
  byte for byte: the last two conjuncts spell the 36 and the 34 bytes out.
\<close>

theorem signature_contexts_wire_literals:
  "REGISTER_ENTITY_SIGNATURE_CONTEXT = ''oasis-core/registry: register entity''
   \<and> REGISTER_NODE_SIGNATURE_CONTEXT = ''oasis-core/registry: register node''
   \<and> map of_char REGISTER_ENTITY_SIGNATURE_CONTEXT =
       [111, 97, 115, 105, 115, 45, 99, 111, 114, 101, 47, 114, 101, 103, 105, 115, 116, 114,
        121, 58, 32, 114, 101, 103, 105, 115, 116, 101, 114, 32, 101, 110, 116, 105, 116,
        121 :: nat]
   \<and> map of_char REGISTER_NODE_SIGNATURE_CONTEXT =
       [111, 97, 115, 105, 115, 45, 99, 111, 114, 101, 47, 114, 101, 103, 105, 115, 116, 114,
        121, 58, 32, 114, 101, 103, 105, 115, 116, 101, 114, 32, 110, 111, 100, 101 :: nat]"
  by (simp add: REGISTER_ENTITY_SIGNATURE_CONTEXT_def REGISTER_NODE_SIGNATURE_CONTEXT_def)

section \<open>Method names and the module name\<close>

text \<open>
  C4. \<open>MODULE_NAME\<close> is \<^verbatim>\<open>registry\<close>, the five method constants are exactly
  \<^verbatim>\<open>registry.RegisterEntity\<close>, \<^verbatim>\<open>registry.DeregisterEntity\<close>, \<^verbatim>\<open>registry.RegisterNode\<close>,
  \<^verbatim>\<open>registry.UnfreezeNode\<close> and \<^verbatim>\<open>registry.RegisterRuntime\<close>, and every one of them
  starts with \<open>MODULE_NAME\<close> followed by a dot.
\<close>

theorem method_names_and_prefix:
  "MODULE_NAME = ''registry''
   \<and> METHOD_REGISTER_ENTITY = ''registry.RegisterEntity''
   \<and> METHOD_DEREGISTER_ENTITY = ''registry.DeregisterEntity''
   \<and> METHOD_REGISTER_NODE = ''registry.RegisterNode''
   \<and> METHOD_UNFREEZE_NODE = ''registry.UnfreezeNode''
   \<and> METHOD_REGISTER_RUNTIME = ''registry.RegisterRuntime''
   \<and> MODULE_NAME @ ''.'' = ''registry.''
   \<and> list_all (prefix (MODULE_NAME @ ''.''))
       [METHOD_REGISTER_ENTITY, METHOD_DEREGISTER_ENTITY, METHOD_REGISTER_NODE,
        METHOD_UNFREEZE_NODE, METHOD_REGISTER_RUNTIME]"
  by (simp add: MODULE_NAME_def method_defs)

section \<open>Gas operations\<close>

text \<open>
  C7. The seven gas-operation constants are exactly the literals \<^verbatim>\<open>register_entity\<close>,
  \<^verbatim>\<open>deregister_entity\<close>, \<^verbatim>\<open>register_node\<close>, \<^verbatim>\<open>unfreeze_node\<close>, \<^verbatim>\<open>register_runtime\<close>,
  \<^verbatim>\<open>runtime_epoch_maintenance\<close> and \<^verbatim>\<open>update_keymanager\<close>, and each of them is snake
  case: made of lower-case letters and underscores only.
\<close>

theorem gas_op_literals:
  "GAS_OP_REGISTER_ENTITY = ''register_entity''
   \<and> GAS_OP_DEREGISTER_ENTITY = ''deregister_entity''
   \<and> GAS_OP_REGISTER_NODE = ''register_node''
   \<and> GAS_OP_UNFREEZE_NODE = ''unfreeze_node''
   \<and> GAS_OP_REGISTER_RUNTIME = ''register_runtime''
   \<and> GAS_OP_RUNTIME_EPOCH_MAINTENANCE = ''runtime_epoch_maintenance''
   \<and> GAS_OP_UPDATEKEY_MANAGER = ''update_keymanager''
   \<and> list_all (list_all (\<lambda>c. c = CHR ''_'' \<or> (CHR ''a'' \<le> c \<and> c \<le> CHR ''z'')))
       [GAS_OP_REGISTER_ENTITY, GAS_OP_DEREGISTER_ENTITY, GAS_OP_REGISTER_NODE,
        GAS_OP_UNFREEZE_NODE, GAS_OP_REGISTER_RUNTIME, GAS_OP_RUNTIME_EPOCH_MAINTENANCE,
        GAS_OP_UPDATEKEY_MANAGER]"
  by (simp add: gas_op_defs less_eq_char_def)

section \<open>Distinctness of the wire identifiers\<close>

text \<open>
  C9. Within each group the wire identifiers are pairwise distinct: the entity context
  differs from the node context, the five method names are pairwise distinct, and the
  seven gas-operation identifiers are pairwise distinct.
\<close>

theorem wire_identifiers_distinct:
  "REGISTER_ENTITY_SIGNATURE_CONTEXT \<noteq> REGISTER_NODE_SIGNATURE_CONTEXT
   \<and> distinct
       [METHOD_REGISTER_ENTITY, METHOD_DEREGISTER_ENTITY, METHOD_REGISTER_NODE,
        METHOD_UNFREEZE_NODE, METHOD_REGISTER_RUNTIME]
   \<and> distinct
       [GAS_OP_REGISTER_ENTITY, GAS_OP_DEREGISTER_ENTITY, GAS_OP_REGISTER_NODE,
        GAS_OP_UNFREEZE_NODE, GAS_OP_REGISTER_RUNTIME, GAS_OP_RUNTIME_EPOCH_MAINTENANCE,
        GAS_OP_UPDATEKEY_MANAGER]"
  by (simp add: signature_context_defs method_defs gas_op_defs)

section \<open>Enumerations\<close>

text \<open>
  C6. The runtime kinds are Invalid = 0, Compute = 1, KeyManager = 2, and the governance
  models are Invalid = 0, Entity = 1, Runtime = 2, Consensus = 3; in both enumerations
  the Invalid sentinel is 0.
\<close>

theorem enumeration_values:
  "KIND_INVALID = 0 \<and> KIND_COMPUTE = 1 \<and> KIND_KEY_MANAGER = 2
   \<and> GOVERNANCE_INVALID = 0 \<and> GOVERNANCE_ENTITY = 1 \<and> GOVERNANCE_RUNTIME = 2
   \<and> GOVERNANCE_CONSENSUS = 3"
  by (simp add: kind_defs governance_defs)

text \<open>
  C5. \<open>GOVERNANCE_MAX\<close> is \<open>GOVERNANCE_CONSENSUS\<close>, and it is the greatest of the defined
  governance values once the sentinel \<open>GOVERNANCE_INVALID\<close> is left out, namely 3.
\<close>

theorem governance_max_is_greatest:
  "GOVERNANCE_MAX = GOVERNANCE_CONSENSUS
   \<and> GOVERNANCE_MAX =
       Max (set (filter (\<lambda>g. g \<noteq> GOVERNANCE_INVALID)
         [GOVERNANCE_INVALID, GOVERNANCE_ENTITY, GOVERNANCE_RUNTIME, GOVERNANCE_CONSENSUS]))
   \<and> GOVERNANCE_MAX = Max {GOVERNANCE_ENTITY, GOVERNANCE_RUNTIME, GOVERNANCE_CONSENSUS}
   \<and> GOVERNANCE_MAX = 3"
  by (simp add: governance_defs)

section \<open>Descriptor version\<close>

text \<open>
  C8. The latest runtime descriptor version is the integer 2.
\<close>

theorem latest_runtime_descriptor_version_is_2:
  "LATEST_RUNTIME_DESCRIPTOR_VERSION = 2"
  by (simp add: LATEST_RUNTIME_DESCRIPTOR_VERSION_def)

section \<open>Error codes\<close>

lemma UNIV_registry_error:
  "(UNIV :: registry_error set) =
     {ErrInvalidArgument, ErrInvalidSignature, ErrBadEntityForNode, ErrBadEntityForRuntime,
      ErrNoEnclaveForRuntime, ErrBadEnclaveIdentity, ErrBadCapabilitiesTEEHardware,
      ErrTEEHardwareMismatch, ErrNoSuchEntity, ErrNoSuchNode, ErrNoSuchRuntime,
      ErrIncorrectTxSigner, ErrNodeExpired, ErrNodeCannotBeUnfrozen, ErrEntityHasNodes,
      ErrForbidden, ErrNodeUpdateNotAllowed, ErrRuntimeUpdateNotAllowed,
      ErrEntityHasRuntimes}"
  (is "_ = ?all")
proof (rule set_eqI)
  fix e :: registry_error
  show "e \<in> UNIV \<longleftrightarrow> e \<in> ?all"
    by (cases e) simp_all
qed

lemma interval_1_19:
  "{1..19::int} = {1, 2, 3, 4, 5, 6, 7, 8, 9, 10, 11, 12, 13, 14, 15, 16, 17, 18, 19}"
proof -
  have "[1..19::int] = [1, 2, 3, 4, 5, 6, 7, 8, 9, 10, 11, 12, 13, 14, 15, 16, 17, 18, 19]"
    by (simp add: upto_rec1)
  then have "set [1..19::int] =
      set [1, 2, 3, 4, 5, 6, 7, 8, 9, 10, 11, 12, 13, 14, 15, 16, 17, 18, 19]"
    by (rule arg_cong)
  then show ?thesis
    by simp
qed

text \<open>
  C2. The nineteen error codes, in the order of the module, are exactly 1, 2, ..., 19;
  they are pairwise distinct; and the documented pairing of failure conditions with
  codes is one to one and onto 1..19: every code stands for exactly one documented
  condition (invalid argument is 1, invalid signature is 2, entity has runtimes is 19).
\<close>

theorem error_codes_1_to_19:
  "[CODE_INVALID_ARGUMENT, CODE_INVALID_SIGNATURE, CODE_BAD_ENTITY_FOR_NODE,
     CODE_BAD_ENTITY_FOR_RUNTIME, CODE_NO_ENCLAVE_FOR_RUNTIME, CODE_BAD_ENCLAVE_IDENTITY,
     CODE_BAD_CAPABILITIES_TEE_HARDWARE, CODE_TEE_HARDWARE_MISMATCH, CODE_NO_SUCH_ENTITY,
     CODE_NO_SUCH_NODE, CODE_NO_SUCH_RUNTIME, CODE_INCORRECT_TX_SIGNER, CODE_NODE_EXPIRED,
     CODE_NODE_CANNOT_BE_UNFROZEN, CODE_ENTITY_HAS_NODES, CODE_FORBIDDEN,
     CODE_NODE_UPDATE_NOT_ALLOWED, CODE_RUNTIME_UPDATE_NOT_ALLOWED,
     CODE_ENTITY_HAS_RUNTIMES] = [1..19]
   \<and> distinct
     [CODE_INVALID_ARGUMENT, CODE_INVALID_SIGNATURE, CODE_BAD_ENTITY_FOR_NODE,
     CODE_BAD_ENTITY_FOR_RUNTIME, CODE_NO_ENCLAVE_FOR_RUNTIME, CODE_BAD_ENCLAVE_IDENTITY,
     CODE_BAD_CAPABILITIES_TEE_HARDWARE, CODE_TEE_HARDWARE_MISMATCH, CODE_NO_SUCH_ENTITY,
     CODE_NO_SUCH_NODE, CODE_NO_SUCH_RUNTIME, CODE_INCORRECT_TX_SIGNER, CODE_NODE_EXPIRED,
     CODE_NODE_CANNOT_BE_UNFROZEN, CODE_ENTITY_HAS_NODES, CODE_FORBIDDEN,
     CODE_NODE_UPDATE_NOT_ALLOWED, CODE_RUNTIME_UPDATE_NOT_ALLOWED,
     CODE_ENTITY_HAS_RUNTIMES]
   \<and> bij_betw error_code UNIV {1..19}
   \<and> error_code ErrInvalidArgument = 1
   \<and> error_code ErrInvalidSignature = 2
   \<and> error_code ErrEntityHasRuntimes = 19"
proof (intro conjI)
  show "bij_betw error_code UNIV {1..19}"
    unfolding bij_betw_def UNIV_registry_error interval_1_19
    by (simp add: code_defs)
qed (simp_all add: code_defs upto_rec1)

section \<open>The test configuration\<close>

text \<open>
  C10. The exported configuration has video recording off, loads no support file, and
  its \<open>setupNodeEvents\<close> hook is the imported helper's \<open>setupNodeEvents\<close>.
\<close>

theorem default_export_fields:
  "video (default_export outputConsoleLogs_setupNodeEvents) = False
   \<and> supportFile (e2e (default_export outputConsoleLogs_setupNodeEvents)) = SupportFileFalse
   \<and> setupNodeEvents (e2e (default_export outputConsoleLogs_setupNodeEvents)) =
       outputConsoleLogs_setupNodeEvents"
  by (simp add: default_export_def defineConfig_def)

end
